theory Spec2Isabelle
  imports Complex_Main "HOL-Library.Multiset" "HOL-Library.Log_Nat"
begin

section \<open>Exceptions and where they are raised\<close>

text \<open>
  A Python exception is its class name and its message. The result of a call is either
  a value or an exception; the exception is tagged with the place that raised it:
  \<open>Raised_by_notebook\<close> for a \<^verbatim>\<open>raise\<close> statement written in a notebook cell,
  \<open>Raised_by_library\<close> for an exception that escaped a call into a library
  (pathlib, cloudpathlib) and was not caught. No cell of the repository contains a
  \<^verbatim>\<open>try\<close>, so an exception of a library call always propagates.
\<close>

datatype py_exception = PyExc string string

datatype error = Raised_by_notebook py_exception | Raised_by_library py_exception

fun exc_class :: "error \<Rightarrow> string" where
  "exc_class (Raised_by_notebook (PyExc c m)) = c"
| "exc_class (Raised_by_library (PyExc c m)) = c"

fun from_library :: "error \<Rightarrow> bool" where
  "from_library (Raised_by_notebook e) = False"
| "from_library (Raised_by_library e) = True"

section \<open>The \<open>ls\<close> helper\<close>

text \<open>
  \<^verbatim>\<open>
  def ls(path):
      "Lists the contents of the given path."
      # If path is not a directory, raise an error:
      if not path.is_dir():
          raise ValueError(f"Path '{path}' is not a directory")
      else:
          return list(path.iterdir())
  \<close>
  \<open>ls\<close> is duck-typed: it is called on \<^verbatim>\<open>pathlib.Path\<close> and on
  \<^verbatim>\<open>cloudpathlib.S3Path\<close> objects. The methods it uses are the fields of
  \<open>path_methods\<close>: \<open>is_dir\<close>, \<open>iterdir\<close> (already consumed into a list, as
  \<^verbatim>\<open>list(path.iterdir())\<close> does) and \<open>str\<close> (used by the f-string). Each
  method of the library may itself raise.
\<close>

record 'p path_methods =
  is_dir :: "'p \<Rightarrow> py_exception + bool"
  iterdir :: "'p \<Rightarrow> py_exception + 'p list"
  str :: "'p \<Rightarrow> string"

definition not_a_directory :: "string \<Rightarrow> py_exception" where
  "not_a_directory s =
     PyExc ''ValueError'' (''Path '' @ [CHR 0x27] @ s @ [CHR 0x27] @ '' is not a directory'')"

text \<open>The expression \<^verbatim>\<open>list(path.iterdir())\<close> evaluated on its own.\<close>

definition list_iterdir :: "'p path_methods \<Rightarrow> 'p \<Rightarrow> error + 'p list" where
  "list_iterdir M path =
     (case iterdir M path of
        Inl e \<Rightarrow> Inl (Raised_by_library e)
      | Inr entries \<Rightarrow> Inr entries)"

definition ls :: "'p path_methods \<Rightarrow> 'p \<Rightarrow> error + 'p list" where
  "ls M path =
     (case is_dir M path of
        Inl e \<Rightarrow> Inl (Raised_by_library e)
      | Inr d \<Rightarrow>
          if \<not> d then Inl (Raised_by_notebook (not_a_directory (str M path)))
          else list_iterdir M path)"

section \<open>The local file system and \<open>pathlib.Path\<close>\<close>

text \<open>
  The notebooks touch the local file system through \<^verbatim>\<open>pathlib.Path\<close> only.
  A file system is a finite table from absolute path strings (no trailing slash) to
  nodes: a regular file with its text, a directory, or a symbolic link with its target.
  The root \<^verbatim>\<open>/\<close> is always a directory. There are no permissions and one process.
  The table is a list, so that the order in which \<^verbatim>\<open>iterdir\<close> yields entries is
  the arbitrary order of the table.
\<close>

datatype node = File string | Dir | Symlink string

type_synonym path = string

type_synonym fs = "(path \<times> node) list"

text \<open>The node stored under a name, a link not followed (what \<^verbatim>\<open>lstat\<close> sees).\<close>

definition entry :: "fs \<Rightarrow> path \<Rightarrow> node option" where
  "entry fs p = (if p = ''/'' then Some Dir else map_of fs p)"

definition parent :: "path \<Rightarrow> path" where
  "parent p =
     (let d = rev (drop 1 (dropWhile (\<lambda>c. c \<noteq> CHR ''/'') (rev p)))
      in if d = [] then ''/'' else d)"

definition child :: "path \<Rightarrow> string \<Rightarrow> path" where
  "child d name = (if d = ''/'' then ''/'' @ name else d @ ''/'' @ name)"

text \<open>The names between the slashes of a path.\<close>

function components :: "string \<Rightarrow> string list" where
  "components [] = []"
| "components (c # cs) =
     (if c = CHR ''/'' then components cs
      else (c # takeWhile (\<lambda>x. x \<noteq> CHR ''/'') cs) #
           components (dropWhile (\<lambda>x. x \<noteq> CHR ''/'') cs))"
  by pat_completeness auto
termination
  by (relation "measure length") (auto simp: length_dropWhile_le less_Suc_eq_le)

text \<open>
  Path resolution as the kernel does it: from the directory \<open>cur\<close>, the names are
  looked up one after the other; a symbolic link is replaced by the names of its target
  (from the root when the target is absolute, from the directory that holds the link
  otherwise), at most 40 times, after which the lookup fails with \<^verbatim>\<open>ELOOP\<close>. A
  name that is missing gives \<^verbatim>\<open>ENOENT\<close>, a regular file in the middle of a path
  \<^verbatim>\<open>ENOTDIR\<close>.
\<close>

datatype lookup = At_dir path | At_file path | ENOENT | ENOTDIR | ELOOP

function walk :: "fs \<Rightarrow> nat \<Rightarrow> path \<Rightarrow> string list \<Rightarrow> lookup" where
  "walk fs fuel cur [] = At_dir cur"
| "walk fs fuel cur (c # cs) =
     (if c = ''.'' then walk fs fuel cur cs
      else if c = ''..'' then walk fs fuel (parent cur) cs
      else (case entry fs (child cur c) of
              None \<Rightarrow> ENOENT
            | Some (File t) \<Rightarrow> if cs = [] then At_file (child cur c) else ENOTDIR
            | Some Dir \<Rightarrow> walk fs fuel (child cur c) cs
            | Some (Symlink t) \<Rightarrow>
                (if t = [] then ENOENT
                 else if fuel = 0 then ELOOP
                 else walk fs (fuel - 1) (if take 1 t = ''/'' then ''/'' else cur)
                        (components t @ cs))))"
  by pat_completeness auto
termination
  by (relation "measures [\<lambda>(fs, fuel, cur, cs). fuel, \<lambda>(fs, fuel, cur, cs). length cs]") auto

definition resolve :: "fs \<Rightarrow> path \<Rightarrow> lookup" where
  "resolve fs p = walk fs 40 ''/'' (components p)"


definition Path_is_dir :: "fs \<Rightarrow> path \<Rightarrow> bool" where
  "Path_is_dir fs p = (case resolve fs p of At_dir d \<Rightarrow> True | _ \<Rightarrow> False)"



text \<open>
  \<^verbatim>\<open>list(path.iterdir())\<close>: the directory the path resolves to is listed, and each
  name is joined to the path as it was given.
\<close>

definition Path_iterdir :: "fs \<Rightarrow> path \<Rightarrow> py_exception + path list" where
  "Path_iterdir fs p =
     (case resolve fs p of
        ENOENT \<Rightarrow> Inl (PyExc ''FileNotFoundError'' p)
      | ENOTDIR \<Rightarrow> Inl (PyExc ''NotADirectoryError'' p)
      | At_file f \<Rightarrow> Inl (PyExc ''NotADirectoryError'' p)
      | ELOOP \<Rightarrow> Inl (PyExc ''OSError'' p)
      | At_dir d \<Rightarrow>
          Inr (map (\<lambda>k. child p (last (components k)))
                 (filter (\<lambda>k. k \<noteq> ''/'' \<and> parent k = d) (remdups (map fst fs)))))"

definition pathlib_Path :: "fs \<Rightarrow> path path_methods" where
  "pathlib_Path fs =
     \<lparr>is_dir = (\<lambda>p. Inr (Path_is_dir fs p)), iterdir = Path_iterdir fs, str = (\<lambda>p. p)\<rparr>"

subsection \<open>The cache directory cell\<close>

text \<open>
  The same three lines open every data-access notebook:
  \<^verbatim>\<open>
  cache_path = Path('/tmp/cache')
  if not cache_path.exists():
      cache_path.mkdir()
  \<close>
  The cell maps the file system to the file system after it, or to the exception that
  escapes it.
\<close>

definition cache_path :: path where
  "cache_path = ''/tmp/cache''"


section \<open>Remote data: clients, paths and cache settings of the notebooks\<close>

text \<open>
  \<^verbatim>\<open>S3Client(local_cache_dir=..., profile_name=..., no_sign_request=...)\<close>: a
  keyword that a cell does not pass is \<open>None\<close>. \<^verbatim>\<open>S3Path(url, client=client)\<close>
  is the URL with the client every later access through that path uses.
\<close>

record s3_client =
  local_cache_dir :: "path option"
  profile_name :: "string option"
  no_sign_request :: "bool option"

record s3_path =
  url :: string
  client :: s3_client

text \<open>
  Remote data is reached in three ways: through an \<^verbatim>\<open>S3Path\<close> of cloudpathlib,
  through \<^verbatim>\<open>ny.freesurfer_subject(url)\<close> of neuropythy, which is handed the
  \<^verbatim>\<open>s3://\<close> URL itself, and through \<^verbatim>\<open>ny.hcp_subject(id)\<close>.
\<close>

datatype access =
    Cloudpath s3_path
  | Ny_freesurfer_subject string
  | Ny_hcp_subject nat

text \<open>
  The two keys of \<^verbatim>\<open>ny.config\<close> the notebooks assign:
  \<^verbatim>\<open>ny.config['hcp_credentials'] = load_aws_credentials(profile)\<close> (the field holds
  the profile name) and \<^verbatim>\<open>ny.config['data_cache_root'] = dir\<close>.
\<close>

record ny_config =
  hcp_credentials :: "string option"
  data_cache_root :: "string option"

text \<open>
  What a notebook fixes about its data: the remote accesses it sets up, its neuropythy
  configuration, and its calls \<^verbatim>\<open>pd.read_csv(file, sep=...)\<close> on a literal local
  file name.
\<close>

record notebook =
  remote :: "access list"
  ny :: ny_config
  tables :: "(string \<times> string) list"

definition no_ny_config :: ny_config where
  "no_ny_config = \<lparr>hcp_credentials = None, data_cache_root = None\<rparr>"

definition abide2_tsv :: "string \<times> string" where
  "abide2_tsv = (''/home/jovyan/shared/data/abide2/abide2.tsv'', [CHR 0x09])"

subsection \<open>The notebooks\<close>

text \<open>
  One value for each notebook of the repository, read off its code cells.
  \<open>part_000\<close> to \<open>part_006\<close> are the notebooks of \<^verbatim>\<open>src/unnamed\<close>:
  HCP 7 Tesla retinotopy (\<open>part_000\<close>), Young Adult HCP (\<open>part_001\<close>), regularization
  and trees (\<open>part_002\<close>), paths and the cache directory, where \<open>ls\<close> is defined
  (\<open>part_003\<close>), NSD (\<open>part_004\<close>), the NYU retinotopy dataset on OpenNeuro
  (\<open>part_005\<close>) and model validation with the k-fold loop (\<open>part_006\<close>). The file
  \<^verbatim>\<open>rokem-ml/03-overfitting.ipynb\<close> holds two notebooks, \<open>overfitting_03\<close> and
  \<open>healthy_brain_network\<close>. An \<^verbatim>\<open>S3Path\<close> keeps the name of its variable, with the
  notebook as suffix where two notebooks use the same name; every client is given
  \<^verbatim>\<open>local_cache_dir=cache_path\<close>.
\<close>

definition hcp_base_path_part_001 :: s3_path where
  "hcp_base_path_part_001 =
     \<lparr>url = ''s3://hcp-openaccess/HCP_1200/'',
      client = \<lparr>local_cache_dir = Some cache_path, profile_name = Some ''hcp'',
                no_sign_request = None\<rparr>\<rparr>"

definition hcp_base_path_003 :: s3_path where
  "hcp_base_path_003 =
     \<lparr>url = ''s3://hcp-openaccess/'',
      client = \<lparr>local_cache_dir = Some cache_path, profile_name = Some ''hcp'',
                no_sign_request = None\<rparr>\<rparr>"

definition hcp_derivs_path :: s3_path where
  "hcp_derivs_path =
     \<lparr>url = ''s3://open-neurodata/rokem/hcp1200/afq'',
      client = \<lparr>local_cache_dir = Some cache_path, profile_name = None,
                no_sign_request = Some True\<rparr>\<rparr>"

definition nsd_base_path_part_003 :: s3_path where
  "nsd_base_path_part_003 =
     \<lparr>url = ''s3://natural-scenes-dataset/'',
      client = \<lparr>local_cache_dir = Some cache_path, profile_name = None,
                no_sign_request = Some True\<rparr>\<rparr>"

definition nsd_base_path_part_004 :: s3_path where
  "nsd_base_path_part_004 =
     \<lparr>url = ''s3://natural-scenes-dataset/'',
      client = \<lparr>local_cache_dir = Some cache_path, profile_name = None,
                no_sign_request = Some True\<rparr>\<rparr>"

definition nyu_base_path :: s3_path where
  "nyu_base_path =
     \<lparr>url = ''s3://openneuro.org/ds003787/'',
      client = \<lparr>local_cache_dir = Some cache_path, profile_name = None,
                no_sign_request = Some True\<rparr>\<rparr>"

definition hbn_base_path :: s3_path where
  "hbn_base_path =
     \<lparr>url = ''s3://fcp-indi/'',
      client = \<lparr>local_cache_dir = Some cache_path, profile_name = None,
                no_sign_request = Some True\<rparr>\<rparr>"

definition part_000 :: notebook where
  "part_000 =
     \<lparr>remote = [Ny_hcp_subject 111312],
      ny = \<lparr>hcp_credentials = Some ''hcp'', data_cache_root = Some ''/tmp/cache''\<rparr>,
      tables = []\<rparr>"

definition part_001 :: notebook where
  "part_001 = \<lparr>remote = [Cloudpath hcp_base_path_part_001], ny = no_ny_config, tables = []\<rparr>"

definition part_002 :: notebook where
  "part_002 = \<lparr>remote = [], ny = no_ny_config, tables = [abide2_tsv]\<rparr>"

definition part_003 :: notebook where
  "part_003 = \<lparr>remote = [Cloudpath nsd_base_path_part_003], ny = no_ny_config, tables = []\<rparr>"

definition part_004 :: notebook where
  "part_004 =
     \<lparr>remote = [Cloudpath nsd_base_path_part_004,
                Ny_freesurfer_subject ''s3://natural-scenes-dataset/nsddata/freesurfer/subj01''],
      ny = \<lparr>hcp_credentials = None, data_cache_root = Some ''/tmp/cache''\<rparr>,
      tables = []\<rparr>"

definition part_005 :: notebook where
  "part_005 =
     \<lparr>remote = [Cloudpath nyu_base_path,
                Ny_freesurfer_subject
                  ''s3://openneuro.org/ds003787/derivatives/freesurfer/sub-wlsubj042''],
      ny = \<lparr>hcp_credentials = None, data_cache_root = Some ''/tmp/cache''\<rparr>,
      tables = []\<rparr>"

definition part_006 :: notebook where
  "part_006 = \<lparr>remote = [], ny = no_ny_config, tables = [abide2_tsv]\<rparr>"

definition preliminaries_01 :: notebook where
  "preliminaries_01 = \<lparr>remote = [], ny = no_ny_config, tables = [abide2_tsv]\<rparr>"

definition overfitting_03 :: notebook where
  "overfitting_03 = \<lparr>remote = [], ny = no_ny_config, tables = []\<rparr>"

definition healthy_brain_network :: notebook where
  "healthy_brain_network = \<lparr>remote = [Cloudpath hbn_base_path], ny = no_ny_config, tables = []\<rparr>"

definition dimensionality_reduction_06 :: notebook where
  "dimensionality_reduction_06 = \<lparr>remote = [], ny = no_ny_config, tables = [abide2_tsv]\<rparr>"

definition introduction_to_pytorch :: notebook where
  "introduction_to_pytorch = \<lparr>remote = [], ny = no_ny_config, tables = []\<rparr>"

definition hcp_diffusion_003 :: notebook where
  "hcp_diffusion_003 =
     \<lparr>remote = [Cloudpath hcp_base_path_003, Cloudpath hcp_derivs_path],
      ny = no_ny_config, tables = []\<rparr>"

definition notebooks :: "notebook list" where
  "notebooks =
     [part_000, part_001, part_002, part_003, part_004, part_005, part_006,
      preliminaries_01, overfitting_03, healthy_brain_network, dimensionality_reduction_06,
      introduction_to_pytorch, hcp_diffusion_003]"

subsection \<open>Reading the settings off a notebook\<close>

fun access_client :: "access \<Rightarrow> s3_client option" where
  "access_client (Cloudpath p) = Some (client p)"
| "access_client (Ny_freesurfer_subject u) = None"
| "access_client (Ny_hcp_subject n) = None"

fun uses_neuropythy :: "access \<Rightarrow> bool" where
  "uses_neuropythy (Cloudpath p) = False"
| "uses_neuropythy (Ny_freesurfer_subject u) = True"
| "uses_neuropythy (Ny_hcp_subject n) = True"

text \<open>
  The directory under which an access caches what it downloads: the client's
  \<open>local_cache_dir\<close> for cloudpathlib, \<open>data_cache_root\<close> for neuropythy; \<open>None\<close>
  when the notebook leaves the choice to the library.
\<close>

definition cache_dir_of :: "notebook \<Rightarrow> access \<Rightarrow> string option" where
  "cache_dir_of nb a =
     (case access_client a of
        Some c \<Rightarrow> local_cache_dir c
      | None \<Rightarrow> data_cache_root (ny nb))"

definition cache_dirs :: "notebook \<Rightarrow> string option list" where
  "cache_dirs nb = map (cache_dir_of nb) (remote nb)"

text \<open>The bucket of \<^verbatim>\<open>s3://bucket/key\<close>.\<close>

definition bucket :: "string \<Rightarrow> string" where
  "bucket u = takeWhile (\<lambda>c. c \<noteq> CHR ''/'') (drop 5 u)"

definition hcp_bucket :: string where
  "hcp_bucket = ''hcp-openaccess''"

definition nsd_bucket :: string where
  "nsd_bucket = ''natural-scenes-dataset''"

definition openneuro_bucket :: string where
  "openneuro_bucket = ''openneuro.org''"

text \<open>
  The bucket an access reads. \<^verbatim>\<open>ny.hcp_subject\<close> is given a subject number and
  the credentials of the HCP bucket, which is the bucket it reads.
\<close>

fun access_bucket :: "access \<Rightarrow> string" where
  "access_bucket (Cloudpath p) = bucket (url p)"
| "access_bucket (Ny_freesurfer_subject u) = bucket u"
| "access_bucket (Ny_hcp_subject n) = hcp_bucket"

text \<open>
  The credential rule for one access, as the specification words it: an access to the
  HCP bucket constructs its client with the profile \<^verbatim>\<open>hcp\<close>, an access to the NSD
  or OpenNeuro bucket constructs its client with \<^verbatim>\<open>no_sign_request=True\<close>.
\<close>

definition credential_rule :: "access \<Rightarrow> bool" where
  "credential_rule a =
     ((access_bucket a = hcp_bucket \<longrightarrow>
         map_option profile_name (access_client a) = Some (Some ''hcp'')) \<and>
      (access_bucket a = nsd_bucket \<or> access_bucket a = openneuro_bucket \<longrightarrow>
         map_option no_sign_request (access_client a) = Some (Some True)))"

section \<open>Functions defined in the notebooks\<close>

text \<open>
  What the code cells of a notebook define and how they treat exceptions: the functions
  and methods bound by \<^verbatim>\<open>def\<close>, each \<^verbatim>\<open>raise\<close> statement with the function
  that holds it and the class it raises, and the number of \<^verbatim>\<open>try\<close> statements.
  The modules \<^verbatim>\<open>utilities\<close> and \<^verbatim>\<open>support\<close> that some cells import are not
  among the sources and are not part of the table.
\<close>

record code_cells =
  defined :: "string list"
  raise_statements :: "(string \<times> string) list"
  try_statements :: nat

definition no_functions :: code_cells where
  "no_functions = \<lparr>defined = [], raise_statements = [], try_statements = 0\<rparr>"

definition code_part_002 :: code_cells where
  "code_part_002 =
     \<lparr>defined = [''plot_coef_path'', ''plot_train_test'', ''plot_graphviz_tree''],
      raise_statements = [], try_statements = 0\<rparr>"

definition code_part_003 :: code_cells where
  "code_part_003 =
     \<lparr>defined = [''ls''], raise_statements = [(''ls'', ''ValueError'')],
      try_statements = 0\<rparr>"

definition code_overfitting_03 :: code_cells where
  "code_overfitting_03 =
     \<lparr>defined = [''make_xy'', ''make_pipeline'', ''plot_fit''],
      raise_statements = [], try_statements = 0\<rparr>"

definition code_dimensionality_reduction_06 :: code_cells where
  "code_dimensionality_reduction_06 =
     \<lparr>defined = [''plot_3d_scatter'', ''plot_3d_scatter''],
      raise_statements = [], try_statements = 0\<rparr>"

definition code_introduction_to_pytorch :: code_cells where
  "code_introduction_to_pytorch =
     \<lparr>defined =
        [''func'', ''MNISTDataset.__init__'', ''MNISTDataset.__getitem__'',
         ''MNISTDataset.__len__'', ''NeuralNetwork.__init__'', ''NeuralNetwork.forward'',
         ''ConvolutionalNeuralNetwork.__init__'', ''ConvolutionalNeuralNetwork.forward''],
      raise_statements = [], try_statements = 0\<rparr>"

text \<open>
  In the order of \<open>notebooks\<close>; the notebooks that define no function
  (\<open>part_000\<close>, \<open>part_001\<close>, \<open>part_004\<close>, \<open>part_005\<close>, \<open>part_006\<close>,
  \<open>preliminaries_01\<close>, \<open>healthy_brain_network\<close>, \<open>hcp_diffusion_003\<close>) hold no
  \<^verbatim>\<open>raise\<close> and no \<^verbatim>\<open>try\<close> either.
\<close>

definition notebook_code :: "code_cells list" where
  "notebook_code =
     [no_functions, no_functions, code_part_002, code_part_003, no_functions, no_functions,
      no_functions, no_functions, code_overfitting_03, no_functions,
      code_dimensionality_reduction_06, code_introduction_to_pytorch, no_functions]"

section \<open>K-folds the explicit way\<close>

text \<open>
  \<^verbatim>\<open>
  K = 5
  inds = list(range(len(X_all)))
  shuffle(inds)
  for k in range(K):
      train = [x for (i, x) in enumerate(inds) if i % K != k]
      test = list(set(inds) - set(train))
      ...
  \<close>
  \<^verbatim>\<open>shuffle\<close> permutes the list in place: after it, \<open>inds\<close> is some
  rearrangement of \<open>[0..<n]\<close>, \<open>n\<close> the number of rows. \<^verbatim>\<open>list(set(...))\<close>
  lists the elements of the set once each, in an order Python does not fix: \<open>test\<close> is
  any such list.
\<close>

definition K :: nat where
  "K = 5"

definition shuffled :: "nat \<Rightarrow> nat list \<Rightarrow> bool" where
  "shuffled n inds = (mset inds = mset [0..<n])"

definition train :: "nat list \<Rightarrow> nat \<Rightarrow> nat list" where
  "train inds k = map snd (filter (\<lambda>(i, x). i mod K \<noteq> k) (enumerate 0 inds))"

definition is_test :: "nat list \<Rightarrow> nat \<Rightarrow> nat list \<Rightarrow> bool" where
  "is_test inds k test = (distinct test \<and> set test = set inds - set (train inds k))"

text \<open>The values of \<open>test\<close> over the \<open>K\<close> iterations of the loop, in order.\<close>

definition are_tests :: "nat list \<Rightarrow> nat list list \<Rightarrow> bool" where
  "are_tests inds tests =
     (length tests = K \<and> list_all (\<lambda>k. is_test inds k (tests ! k)) [0..<K])"

section \<open>Cumulative explained variance\<close>

text \<open>
  \<^verbatim>\<open>plt.plot(np.cumsum(pca.explained_variance_ratio_), lw=3)\<close>: the ratios are an
  array of binary64 floating-point numbers, and the curve is their running sum, added
  from left to right, each sum rounded to binary64; its first entry is the first ratio.

  A binary64 value is a finite number, an infinity or a NaN. A finite number is kept as
  the rational it denotes (the two zeros are not told apart).
\<close>

datatype f64 = Finite rat | PosInf | NegInf | NaN

text \<open>
  Rounding to the nearest binary64 number, ties to the even significand. The spacing of
  the binary64 numbers around \<open>x\<close> is \<open>2\<close> to the power \<open>e - 52\<close>, where
  \<open>2 ^ e \<le> \<bar>x\<bar> < 2 ^ (e + 1)\<close>; below \<open>2 ^ (-1022)\<close> (the subnormal numbers) it stays
  at \<open>2 ^ (-1074)\<close>. \<open>round64\<close> rounds with no bound on the exponent; \<open>add64\<close>
  turns a rounded sum beyond the largest finite number into an infinity.
\<close>

definition round_half_even :: "rat \<Rightarrow> int" where
  "round_half_even y =
     (let f = \<lfloor>y\<rfloor>; d = y - of_int f
      in if d < 1 / 2 then f else if 1 / 2 < d then f + 1 else if even f then f else f + 1)"

text \<open>
  For a positive \<open>x\<close>, \<open>ilog2 x\<close> is the exponent \<open>e\<close> with
  \<open>2 ^ e \<le> x < 2 ^ (e + 1)\<close>, found from the bit lengths of the numerator and the
  denominator of \<open>x\<close>.
\<close>

definition ilog2 :: "rat \<Rightarrow> int" where
  "ilog2 x =
     (let d = bitlen (fst (quotient_of x)) - bitlen (snd (quotient_of x))
      in if 2 powi d \<le> x then d else d - 1)"

definition quantum :: "rat \<Rightarrow> rat" where
  "quantum x = 2 powi (max (ilog2 \<bar>x\<bar>) (- 1022) - 52)"

definition round64 :: "rat \<Rightarrow> rat" where
  "round64 x = (if x = 0 then 0 else of_int (round_half_even (x / quantum x)) * quantum x)"

definition max_f64 :: rat where
  "max_f64 = (2 ^ 53 - 1) * 2 ^ 971"

fun add64 :: "f64 \<Rightarrow> f64 \<Rightarrow> f64" where
  "add64 (Finite a) (Finite b) =
     (let r = round64 (a + b)
      in if max_f64 < r then PosInf else if r < - max_f64 then NegInf else Finite r)"
| "add64 NaN y = NaN"
| "add64 x NaN = NaN"
| "add64 PosInf NegInf = NaN"
| "add64 NegInf PosInf = NaN"
| "add64 PosInf y = PosInf"
| "add64 x PosInf = PosInf"
| "add64 NegInf y = NegInf"
| "add64 x NegInf = NegInf"

fun le64 :: "f64 \<Rightarrow> f64 \<Rightarrow> bool" where
  "le64 NaN y = False"
| "le64 x NaN = False"
| "le64 (Finite a) (Finite b) = (a \<le> b)"
| "le64 NegInf y = True"
| "le64 x PosInf = True"
| "le64 PosInf y = False"
| "le64 x NegInf = False"

text \<open>\<^verbatim>\<open>np.cumsum\<close>: the running sum with the addition of the array's numbers.\<close>

fun cumsum_from :: "('a \<Rightarrow> 'a \<Rightarrow> 'a) \<Rightarrow> 'a \<Rightarrow> 'a list \<Rightarrow> 'a list" where
  "cumsum_from add s [] = []"
| "cumsum_from add s (x # xs) = add s x # cumsum_from add (add s x) xs"

fun cumsum :: "f64 list \<Rightarrow> f64 list" where
  "cumsum [] = []"
| "cumsum (x # xs) = x # cumsum_from add64 x xs"

text \<open>
  A nonnegative ratio: a finite binary64 number (a rational that rounding leaves as it
  is, within the finite range) that is not negative. \<open>exact\<close> is the number a finite
  value denotes.
\<close>

fun ratio64 :: "f64 \<Rightarrow> bool" where
  "ratio64 (Finite a) = (round64 a = a \<and> 0 \<le> a \<and> a \<le> max_f64)"
| "ratio64 PosInf = False"
| "ratio64 NegInf = False"
| "ratio64 NaN = False"

fun exact :: "f64 \<Rightarrow> rat" where
  "exact (Finite a) = a"
| "exact PosInf = 0"
| "exact NegInf = 0"
| "exact NaN = 0"


section \<open>Example states\<close>

text \<open>
  The cache directory as the first data-access notebook leaves it: \<^verbatim>\<open>/tmp/cache\<close>
  holding the one file \<^verbatim>\<open>README.md\<close>.
\<close>

definition example_fs :: fs where
  "example_fs =
     [(''/tmp'', Dir), (''/tmp/cache'', Dir),
      (''/tmp/cache/README.md'', File ''# Local Dataset Cache Directory'')]"


text \<open>
  The root of the NSD bucket as an \<^verbatim>\<open>S3Path\<close> with the network down: cloudpathlib
  answers \<^verbatim>\<open>is_dir()\<close> for a bucket root without a request, and the listing raises
  \<^verbatim>\<open>EndpointConnectionError\<close>.
\<close>

definition offline_bucket_root :: "unit path_methods" where
  "offline_bucket_root =
     \<lparr>is_dir = (\<lambda>p. Inr True),
      iterdir = (\<lambda>p. Inl (PyExc ''EndpointConnectionError''
                              ''Could not connect to the endpoint URL'')),
      str = (\<lambda>p. ''s3://natural-scenes-dataset/'')\<rparr>"

text \<open>Seven rows, one outcome of the shuffle, and the five test lists of the loop.\<close>

definition example_inds :: "nat list" where
  "example_inds = [3, 0, 6, 2, 5, 1, 4]"

definition example_tests :: "nat list list" where
  "example_tests = [[1, 3], [0, 4], [6], [2], [5]]"

text \<open>
  Six nonnegative binary64 ratios whose exact sum is below 1, and the binary64 numbers
  nearest to 0.1, 0.2 and 0.3.
\<close>

definition rounding_example :: "f64 list" where
  "rounding_example =
     [Finite (1 / 2),
      Finite (65 / 1152921504606846976),
      Finite (65 / 1152921504606846976),
      Finite (65 / 1152921504606846976),
      Finite (65 / 1152921504606846976),
      Finite (9007199254740987 / 18014398509481984)]"

definition tenths :: "f64 list" where
  "tenths =
     [Finite (3602879701896397 / 36028797018963968),
      Finite (3602879701896397 / 18014398509481984),
      Finite (5404319552844595 / 18014398509481984)]"

section \<open>Properties of \<open>ls\<close>\<close>

lemma example_fs_is_dir:
  "is_dir (pathlib_Path example_fs) ''/tmp/cache'' = Inr True"
  "is_dir (pathlib_Path example_fs) ''/tmp/cache/README.md'' = Inr False"
  by (simp_all add: pathlib_Path_def Path_is_dir_def resolve_def entry_def child_def
      example_fs_def)

lemma example_fs_iterdir:
  "list_iterdir (pathlib_Path example_fs) ''/tmp/cache'' = Inr [''/tmp/cache/README.md'']"
  by (simp add: list_iterdir_def pathlib_Path_def Path_iterdir_def resolve_def entry_def
      child_def parent_def example_fs_def)

lemma example_fs_ls_file:
  "ls (pathlib_Path example_fs) ''/tmp/cache/README.md'' =
     Inl (Raised_by_notebook (not_a_directory ''/tmp/cache/README.md''))"
  by (simp add: ls_def example_fs_is_dir) (simp add: pathlib_Path_def)

lemma example_fs_ls_dir:
  "ls (pathlib_Path example_fs) ''/tmp/cache'' = Inr [''/tmp/cache/README.md'']"
  by (simp add: ls_def example_fs_is_dir example_fs_iterdir)

lemma offline_bucket_root_ls:
  "ls offline_bucket_root () =
     Inl (Raised_by_library (PyExc ''EndpointConnectionError''
                               ''Could not connect to the endpoint URL''))"
  by (simp add: ls_def list_iterdir_def offline_bucket_root_def)

text \<open>
  C4: \<open>ls\<close> is a thin wrapper around directory listing. For a path whose
  \<^verbatim>\<open>is_dir()\<close> is true, \<open>ls(path)\<close> is exactly \<^verbatim>\<open>list(path.iterdir())\<close>
  (the same list, or the same exception of the library). For a path whose
  \<^verbatim>\<open>is_dir()\<close> is false, \<open>ls(path)\<close> raises a \<^verbatim>\<open>ValueError\<close> and returns
  nothing.
\<close>

theorem ls_thin_wrapper:
  "(is_dir M p = Inr True \<longrightarrow> ls M p = list_iterdir M p) \<and>
   (is_dir M p = Inr False \<longrightarrow>
      ls M p = Inl (Raised_by_notebook (not_a_directory (str M p))) \<and>
      exc_class (Raised_by_notebook (not_a_directory (str M p))) = ''ValueError'')"
  by (simp add: ls_def not_a_directory_def)

theorem ls_thin_wrapper_witness:
  "is_dir (pathlib_Path example_fs) ''/tmp/cache'' = Inr True \<and>
   ls (pathlib_Path example_fs) ''/tmp/cache'' = Inr [''/tmp/cache/README.md''] \<and>
   is_dir (pathlib_Path example_fs) ''/tmp/cache/README.md'' = Inr False \<and>
   ls (pathlib_Path example_fs) ''/tmp/cache/README.md'' =
     Inl (Raised_by_notebook (PyExc ''ValueError''
        (''Path '' @ [CHR 0x27] @ ''/tmp/cache/README.md'' @ [CHR 0x27] @
         '' is not a directory'')))"
proof -
  have s: "str (pathlib_Path example_fs) ''/tmp/cache/README.md'' = ''/tmp/cache/README.md''"
    by (simp add: pathlib_Path_def)
  show ?thesis
    using ls_thin_wrapper [of "pathlib_Path example_fs" "''/tmp/cache''"]
      ls_thin_wrapper [of "pathlib_Path example_fs" "''/tmp/cache/README.md''"]
      example_fs_is_dir example_fs_iterdir s
    by (simp add: not_a_directory_def)
qed

text \<open>
  C3, as the specification states it: every exception that escapes \<open>ls\<close> originates
  in an underlying library, never in notebook code. It fails: on a path that is not a
  directory, the exception that escapes \<open>ls\<close> is the \<^verbatim>\<open>ValueError\<close> that \<open>ls\<close>
  constructs and raises itself.
\<close>

theorem ls_raises_its_own_error:
  "ls (pathlib_Path example_fs) ''/tmp/cache/README.md'' =
     Inl (Raised_by_notebook (not_a_directory ''/tmp/cache/README.md'')) \<and>
   \<not> from_library (Raised_by_notebook (not_a_directory ''/tmp/cache/README.md''))"
  by (simp add: example_fs_ls_file)

text \<open>
  C3, amended: \<open>ls\<close> is the only function defined in the notebooks that raises an
  exception of its own, the \<^verbatim>\<open>ValueError\<close> for a path whose \<^verbatim>\<open>is_dir()\<close> is
  false, and no notebook code handles a failure: no cell holds a \<^verbatim>\<open>try\<close>. For
  \<open>ls\<close> itself, an exception escapes exactly in three cases: that \<^verbatim>\<open>ValueError\<close>,
  the library's exception when \<^verbatim>\<open>is_dir()\<close> raises, and the library's exception
  when \<^verbatim>\<open>is_dir()\<close> is true and \<^verbatim>\<open>iterdir()\<close> raises, each library exception
  passed on unchanged; and \<open>ls\<close> returns a list only when \<^verbatim>\<open>is_dir()\<close> is true
  and the listing succeeded, that list and no other.
\<close>

theorem ls_exceptions:
  "(ls M p = Inl e) =
     (is_dir M p = Inr False \<and> e = Raised_by_notebook (not_a_directory (str M p)) \<or>
      (\<exists>x. e = Raised_by_library x \<and>
           (is_dir M p = Inl x \<or> is_dir M p = Inr True \<and> iterdir M p = Inl x))) \<and>
   (ls M p = Inr entries) = (is_dir M p = Inr True \<and> iterdir M p = Inr entries) \<and>
   concat (map raise_statements notebook_code) = [(''ls'', ''ValueError'')] \<and>
   sum_list (map try_statements notebook_code) = 0"
proof (intro conjI)
  show "(ls M p = Inl e) =
     (is_dir M p = Inr False \<and> e = Raised_by_notebook (not_a_directory (str M p)) \<or>
      (\<exists>x. e = Raised_by_library x \<and>
           (is_dir M p = Inl x \<or> is_dir M p = Inr True \<and> iterdir M p = Inl x)))"
    by (auto simp: ls_def list_iterdir_def split: sum.splits if_splits)
  show "(ls M p = Inr entries) = (is_dir M p = Inr True \<and> iterdir M p = Inr entries)"
    by (auto simp: ls_def list_iterdir_def split: sum.splits if_splits)
  show "concat (map raise_statements notebook_code) = [(''ls'', ''ValueError'')]"
    by (simp add: notebook_code_def no_functions_def code_part_002_def code_part_003_def
        code_overfitting_03_def code_dimensionality_reduction_06_def
        code_introduction_to_pytorch_def)
  show "sum_list (map try_statements notebook_code) = 0"
    by (simp add: notebook_code_def no_functions_def code_part_002_def code_part_003_def
        code_overfitting_03_def code_dimensionality_reduction_06_def
        code_introduction_to_pytorch_def)
qed

theorem ls_exceptions_witness:
  "ls (pathlib_Path example_fs) ''/tmp/cache/README.md'' =
     Inl (Raised_by_notebook (not_a_directory ''/tmp/cache/README.md'')) \<and>
   is_dir (pathlib_Path example_fs) ''/tmp/cache/README.md'' = Inr False \<and>
   ls offline_bucket_root () =
     Inl (Raised_by_library (PyExc ''EndpointConnectionError''
                               ''Could not connect to the endpoint URL'')) \<and>
   is_dir offline_bucket_root () = Inr True \<and>
   iterdir offline_bucket_root () =
     Inl (PyExc ''EndpointConnectionError'' ''Could not connect to the endpoint URL'') \<and>
   ls (pathlib_Path example_fs) ''/tmp/cache'' = Inr [''/tmp/cache/README.md''] \<and>
   iterdir (pathlib_Path example_fs) ''/tmp/cache'' = Inr [''/tmp/cache/README.md'']"
proof -
  note a = ls_exceptions [of "pathlib_Path example_fs" "''/tmp/cache/README.md''"
      "Raised_by_notebook (not_a_directory ''/tmp/cache/README.md'')" "[]"]
  note b = ls_exceptions [of offline_bucket_root "()"
      "Raised_by_library (PyExc ''EndpointConnectionError''
         ''Could not connect to the endpoint URL'')" "[]"]
  note c = ls_exceptions [of "pathlib_Path example_fs" "''/tmp/cache''"
      "Raised_by_notebook (not_a_directory ''/tmp/cache'')" "[''/tmp/cache/README.md'']"]
  from a example_fs_ls_file
  have 1: "is_dir (pathlib_Path example_fs) ''/tmp/cache/README.md'' = Inr False" by auto
  from b offline_bucket_root_ls
  have 2: "is_dir offline_bucket_root () = Inr True \<and>
           iterdir offline_bucket_root () =
             Inl (PyExc ''EndpointConnectionError'' ''Could not connect to the endpoint URL'')"
    by (auto simp: offline_bucket_root_def)
  from c example_fs_ls_dir
  have 3: "iterdir (pathlib_Path example_fs) ''/tmp/cache'' = Inr [''/tmp/cache/README.md'']"
    by simp
  show ?thesis using 1 2 3 example_fs_ls_file offline_bucket_root_ls example_fs_ls_dir by simp
qed

section \<open>The cache directory is created once\<close>















section \<open>Path conventions and credentials\<close>

lemmas notebook_defs =
  part_000_def part_001_def part_002_def part_003_def part_004_def part_005_def part_006_def
  preliminaries_01_def overfitting_03_def healthy_brain_network_def
  dimensionality_reduction_06_def introduction_to_pytorch_def hcp_diffusion_003_def
  no_ny_config_def

lemmas s3_path_defs =
  hcp_base_path_part_001_def hcp_base_path_003_def hcp_derivs_path_def
  nsd_base_path_part_003_def nsd_base_path_part_004_def nyu_base_path_def hbn_base_path_def

lemma s3_path_buckets:
  "bucket (url hcp_base_path_part_001) = ''hcp-openaccess''"
  "bucket (url hcp_base_path_003) = ''hcp-openaccess''"
  "bucket (url hcp_derivs_path) = ''open-neurodata''"
  "bucket (url nsd_base_path_part_003) = ''natural-scenes-dataset''"
  "bucket (url nsd_base_path_part_004) = ''natural-scenes-dataset''"
  "bucket (url nyu_base_path) = ''openneuro.org''"
  "bucket (url hbn_base_path) = ''fcp-indi''"
  by (simp_all add: s3_path_defs bucket_def)

lemma url_buckets:
  "bucket ''s3://natural-scenes-dataset/nsddata/freesurfer/subj01'' = ''natural-scenes-dataset''"
  "bucket ''s3://openneuro.org/ds003787/derivatives/freesurfer/sub-wlsubj042'' = ''openneuro.org''"
  by (simp_all add: bucket_def)

lemma s3_path_clients:
  "profile_name (client hcp_base_path_part_001) = Some ''hcp''"
  "no_sign_request (client hcp_base_path_part_001) = None"
  "profile_name (client hcp_base_path_003) = Some ''hcp''"
  "no_sign_request (client hcp_base_path_003) = None"
  "profile_name (client hcp_derivs_path) = None"
  "no_sign_request (client hcp_derivs_path) = Some True"
  "profile_name (client nsd_base_path_part_003) = None"
  "no_sign_request (client nsd_base_path_part_003) = Some True"
  "profile_name (client nsd_base_path_part_004) = None"
  "no_sign_request (client nsd_base_path_part_004) = Some True"
  "profile_name (client nyu_base_path) = None"
  "no_sign_request (client nyu_base_path) = Some True"
  "profile_name (client hbn_base_path) = None"
  "no_sign_request (client hbn_base_path) = Some True"
  by (simp_all add: s3_path_defs)

lemmas bucket_names = hcp_bucket_def nsd_bucket_def openneuro_bucket_def

text \<open>
  C5: every notebook follows the fixed path conventions. Whatever an access downloads
  is cached under \<^verbatim>\<open>/tmp/cache\<close>, the value of \<open>cache_path\<close>, passed as
  \<^verbatim>\<open>local_cache_dir\<close> to every cloudpathlib client and assigned to
  \<^verbatim>\<open>data_cache_root\<close> in every notebook that goes through neuropythy; and every
  local table a notebook reads is the ABIDE-II file
  \<^verbatim>\<open>/home/jovyan/shared/data/abide2/abide2.tsv\<close>, read with a tab as separator.
\<close>

theorem path_conventions:
  "cache_path = ''/tmp/cache'' \<and>
   set (concat (map cache_dirs notebooks)) = {Some ''/tmp/cache''} \<and>
   set (concat (map tables notebooks)) =
     {(''/home/jovyan/shared/data/abide2/abide2.tsv'', [CHR 0x09])}"
  by (simp add: notebooks_def notebook_defs s3_path_defs cache_dirs_def cache_dir_of_def
      cache_path_def abide2_tsv_def)

text \<open>
  C6, as the specification states it: every access to the HCP bucket constructs its
  client with the profile \<^verbatim>\<open>hcp\<close>, and every access to the NSD and OpenNeuro
  buckets constructs its client with \<^verbatim>\<open>no_sign_request=True\<close>. It fails: the NSD
  notebook also reads the NSD bucket through
  \<^verbatim>\<open>ny.freesurfer_subject('s3://natural-scenes-dataset/nsddata/freesurfer/subj01')\<close>,
  which constructs no client at all.
\<close>

theorem credential_rule_counterexample:
  "Ny_freesurfer_subject ''s3://natural-scenes-dataset/nsddata/freesurfer/subj01''
     \<in> set (remote part_004) \<and>
   access_bucket (Ny_freesurfer_subject ''s3://natural-scenes-dataset/nsddata/freesurfer/subj01'')
     = nsd_bucket \<and>
   \<not> credential_rule
       (Ny_freesurfer_subject ''s3://natural-scenes-dataset/nsddata/freesurfer/subj01'')"
  by (simp add: part_004_def credential_rule_def url_buckets nsd_bucket_def)

text \<open>
  C6, amended: every \<^verbatim>\<open>S3Client\<close> that a notebook constructs for the HCP bucket is
  given \<^verbatim>\<open>profile_name='hcp'\<close> and no \<^verbatim>\<open>no_sign_request\<close>, and every
  \<^verbatim>\<open>S3Client\<close> constructed for the NSD or OpenNeuro bucket is given
  \<^verbatim>\<open>no_sign_request=True\<close> and no profile. The accesses that construct no client
  are those made through neuropythy; of these, the one to the HCP bucket runs with
  \<^verbatim>\<open>ny.config['hcp_credentials'] = load_aws_credentials('hcp')\<close>.
\<close>

theorem client_credentials:
  assumes "nb \<in> set notebooks" and "a \<in> set (remote nb)"
  shows "case access_client a of
           Some c \<Rightarrow>
             (access_bucket a = hcp_bucket \<longrightarrow>
                profile_name c = Some ''hcp'' \<and> no_sign_request c = None) \<and>
             (access_bucket a = nsd_bucket \<or> access_bucket a = openneuro_bucket \<longrightarrow>
                no_sign_request c = Some True \<and> profile_name c = None)
         | None \<Rightarrow>
             uses_neuropythy a \<and>
             (access_bucket a = hcp_bucket \<longrightarrow> hcp_credentials (ny nb) = Some ''hcp'')"
proof -
  from assms(1) consider
      "nb = part_000" | "nb = part_001" | "nb = part_002" | "nb = part_003" | "nb = part_004"
    | "nb = part_005" | "nb = part_006" | "nb = preliminaries_01" | "nb = overfitting_03"
    | "nb = healthy_brain_network" | "nb = dimensionality_reduction_06"
    | "nb = introduction_to_pytorch" | "nb = hcp_diffusion_003"
    by (auto simp: notebooks_def)
  then show ?thesis
  proof cases
    case 1
    with assms(2) have "a = Ny_hcp_subject 111312" by (simp add: part_000_def)
    with 1 show ?thesis by (simp add: part_000_def)
  next
    case 2
    with assms(2) have "a = Cloudpath hcp_base_path_part_001" by (simp add: part_001_def)
    then show ?thesis by (simp add: s3_path_buckets s3_path_clients bucket_names)
  next
    case 3
    with assms(2) show ?thesis by (simp add: part_002_def)
  next
    case 4
    with assms(2) have "a = Cloudpath nsd_base_path_part_003" by (simp add: part_003_def)
    then show ?thesis by (simp add: s3_path_buckets s3_path_clients bucket_names)
  next
    case 5
    with assms(2) consider "a = Cloudpath nsd_base_path_part_004"
      | "a = Ny_freesurfer_subject ''s3://natural-scenes-dataset/nsddata/freesurfer/subj01''"
      by (auto simp: part_004_def)
    then show ?thesis
      by cases (simp_all add: s3_path_buckets s3_path_clients url_buckets bucket_names)
  next
    case 6
    with assms(2) consider "a = Cloudpath nyu_base_path"
      | "a = Ny_freesurfer_subject
               ''s3://openneuro.org/ds003787/derivatives/freesurfer/sub-wlsubj042''"
      by (auto simp: part_005_def)
    then show ?thesis
      by cases (simp_all add: s3_path_buckets s3_path_clients url_buckets bucket_names)
  next
    case 7
    with assms(2) show ?thesis by (simp add: part_006_def)
  next
    case 8
    with assms(2) show ?thesis by (simp add: preliminaries_01_def)
  next
    case 9
    with assms(2) show ?thesis by (simp add: overfitting_03_def)
  next
    case 10
    with assms(2) have "a = Cloudpath hbn_base_path" by (simp add: healthy_brain_network_def)
    then show ?thesis by (simp add: s3_path_buckets s3_path_clients bucket_names)
  next
    case 11
    with assms(2) show ?thesis by (simp add: dimensionality_reduction_06_def)
  next
    case 12
    with assms(2) show ?thesis by (simp add: introduction_to_pytorch_def)
  next
    case 13
    with assms(2) consider "a = Cloudpath hcp_base_path_003" | "a = Cloudpath hcp_derivs_path"
      by (auto simp: hcp_diffusion_003_def)
    then show ?thesis
      by cases (simp_all add: s3_path_buckets s3_path_clients bucket_names)
  qed
qed

theorem client_credentials_witness:
  "part_001 \<in> set notebooks \<and> Cloudpath hcp_base_path_part_001 \<in> set (remote part_001) \<and>
   access_bucket (Cloudpath hcp_base_path_part_001) = hcp_bucket \<and>
   profile_name (client hcp_base_path_part_001) = Some ''hcp'' \<and>
   no_sign_request (client hcp_base_path_part_001) = None \<and>
   part_005 \<in> set notebooks \<and> Cloudpath nyu_base_path \<in> set (remote part_005) \<and>
   access_bucket (Cloudpath nyu_base_path) = openneuro_bucket \<and>
   no_sign_request (client nyu_base_path) = Some True \<and>
   profile_name (client nyu_base_path) = None \<and>
   part_000 \<in> set notebooks \<and> Ny_hcp_subject 111312 \<in> set (remote part_000) \<and>
   hcp_credentials (ny part_000) = Some ''hcp''"
proof -
  have n1: "part_001 \<in> set notebooks" and n5: "part_005 \<in> set notebooks"
    and n0: "part_000 \<in> set notebooks"
    by (simp_all add: notebooks_def)
  have a1: "Cloudpath hcp_base_path_part_001 \<in> set (remote part_001)"
    by (simp add: part_001_def)
  have a5: "Cloudpath nyu_base_path \<in> set (remote part_005)"
    by (simp add: part_005_def)
  have a0: "Ny_hcp_subject 111312 \<in> set (remote part_000)"
    by (simp add: part_000_def)
  have b1: "access_bucket (Cloudpath hcp_base_path_part_001) = hcp_bucket"
    by (simp add: s3_path_buckets bucket_names)
  have b5: "access_bucket (Cloudpath nyu_base_path) = openneuro_bucket"
    by (simp add: s3_path_buckets bucket_names)
  have b0: "access_bucket (Ny_hcp_subject 111312) = hcp_bucket"
    by simp
  from client_credentials [OF n1 a1] b1
  have c1: "profile_name (client hcp_base_path_part_001) = Some ''hcp'' \<and>
            no_sign_request (client hcp_base_path_part_001) = None"
    by simp
  from client_credentials [OF n5 a5] b5
  have c5: "no_sign_request (client nyu_base_path) = Some True \<and>
            profile_name (client nyu_base_path) = None"
    by simp
  from client_credentials [OF n0 a0] b0
  have c0: "hcp_credentials (ny part_000) = Some ''hcp''"
    by simp
  show ?thesis using n1 n5 n0 a1 a5 a0 b1 b5 c1 c5 c0 by simp
qed

section \<open>The folds partition the rows\<close>

lemma shuffled_facts:
  assumes "shuffled n inds"
  shows "distinct inds" and "set inds = {0..<n}" and "length inds = n"
proof -
  have eq: "mset inds = mset [0..<n]" using assms by (simp add: shuffled_def)
  show "distinct inds" using mset_eq_imp_distinct_iff [OF eq] by simp
  show "set inds = {0..<n}" using mset_eq_setD [OF eq] by simp
  show "length inds = n" using mset_eq_length [OF eq] by simp
qed

lemma set_train: "set (train inds k) = {inds ! i | i. i < length inds \<and> i mod K \<noteq> k}"
  by (force simp: train_def in_set_enumerate_eq image_iff)

lemma train_subset: "set (train inds k) \<subseteq> set inds"
  by (auto simp: set_train)

lemma distinct_train: "distinct inds \<Longrightarrow> distinct (train inds k)"
  unfolding train_def by (rule distinct_map_filter) (simp add: map_snd_enumerate)

lemma set_test:
  assumes "distinct inds"
  shows "set inds - set (train inds k) = {inds ! i | i. i < length inds \<and> i mod K = k}"
proof -
  have "\<And>i j. i < length inds \<Longrightarrow> j < length inds \<Longrightarrow> inds ! i = inds ! j \<Longrightarrow> i = j"
    using assms by (simp add: nth_eq_iff_index_eq)
  then show ?thesis
    unfolding set_train by (auto simp: in_set_conv_nth) blast+
qed

lemma fold_parts:
  assumes "shuffled n inds" and "is_test inds k test"
  shows "set (train inds k) \<inter> set test = {}"
    and "mset (train inds k) + mset test = mset [0..<n]"
proof -
  have d: "distinct inds" and s: "set inds = {0..<n}" using shuffled_facts [OF assms(1)] by auto
  have dt: "distinct test" and st: "set test = set inds - set (train inds k)"
    using assms(2) by (auto simp: is_test_def)
  show disj: "set (train inds k) \<inter> set test = {}" using st by auto
  have "distinct (train inds k @ test)"
    using distinct_train [OF d] dt disj by simp
  moreover have "set (train inds k @ test) = set [0..<n]"
    using st s train_subset [of inds k] by auto
  ultimately have "mset (train inds k @ test) = mset [0..<n]"
    using set_eq_iff_mset_eq_distinct [of "train inds k @ test" "[0..<n]"] distinct_upt
    by blast
  then show "mset (train inds k) + mset test = mset [0..<n]" by simp
qed

lemma fold_of_index:
  assumes "shuffled n inds" and "x < n"
  shows "\<exists>k<K. x \<in> set inds - set (train inds k) \<and>
           (\<forall>j<K. j \<noteq> k \<longrightarrow> x \<in> set (train inds j))"
proof -
  have d: "distinct inds" and s: "set inds = {0..<n}" using shuffled_facts [OF assms(1)] by auto
  from assms(2) s have "x \<in> set inds" by simp
  then obtain i where i: "i < length inds" "inds ! i = x" by (auto simp: in_set_conv_nth)
  have "i mod K < K" by (simp add: K_def)
  moreover have "x \<in> set inds - set (train inds (i mod K))"
    unfolding set_test [OF d] using i by auto
  moreover have "\<forall>j<K. j \<noteq> i mod K \<longrightarrow> x \<in> set (train inds j)"
    unfolding set_train using i by auto
  ultimately show ?thesis by blast
qed

lemma are_tests_nth: "are_tests inds tests \<Longrightarrow> k < K \<Longrightarrow> is_test inds k (tests ! k)"
  by (simp add: are_tests_def list_all_iff)

text \<open>
  C1: in the manual k-fold loop (\<open>K = 5\<close>), for every fold \<open>k\<close> the train list and the
  test list are disjoint and together contain every row index exactly once; hence every
  row index is in the test list of exactly one fold and in the train list of each of the
  other \<open>K - 1\<close> folds.
\<close>

theorem kfold_partition:
  assumes "shuffled n inds" and "are_tests inds tests"
  shows "(\<forall>k<K. set (train inds k) \<inter> set (tests ! k) = {} \<and>
                 mset (train inds k) + mset (tests ! k) = mset [0..<n]) \<and>
         (\<forall>x<n. \<exists>k<K. x \<in> set (tests ! k) \<and>
                 (\<forall>j<K. j \<noteq> k \<longrightarrow> x \<notin> set (tests ! j) \<and> x \<in> set (train inds j)))"
proof (intro conjI allI impI)
  fix k assume "k < K"
  then have t: "is_test inds k (tests ! k)" by (rule are_tests_nth [OF assms(2)])
  show "set (train inds k) \<inter> set (tests ! k) = {}"
    by (rule fold_parts(1) [OF assms(1) t])
  show "mset (train inds k) + mset (tests ! k) = mset [0..<n]"
    by (rule fold_parts(2) [OF assms(1) t])
next
  fix x assume "x < n"
  from fold_of_index [OF assms(1) this] obtain k where k: "k < K"
    "x \<in> set inds - set (train inds k)" "\<forall>j<K. j \<noteq> k \<longrightarrow> x \<in> set (train inds j)"
    by blast
  have tk: "\<And>j. j < K \<Longrightarrow> set (tests ! j) = set inds - set (train inds j)"
    using are_tests_nth [OF assms(2)] by (simp add: is_test_def)
  have "x \<in> set (tests ! k)" using k tk by simp
  moreover have "\<forall>j<K. j \<noteq> k \<longrightarrow> x \<notin> set (tests ! j) \<and> x \<in> set (train inds j)"
    using k(3) tk by auto
  ultimately show "\<exists>k<K. x \<in> set (tests ! k) \<and>
                 (\<forall>j<K. j \<noteq> k \<longrightarrow> x \<notin> set (tests ! j) \<and> x \<in> set (train inds j))"
    using k(1) by blast
qed

theorem kfold_partition_witness:
  "shuffled 7 example_inds \<and> are_tests example_inds example_tests \<and>
   train example_inds 1 = [3, 6, 2, 5, 1] \<and> example_tests ! 1 = [0, 4] \<and>
   set (train example_inds 1) \<inter> set (example_tests ! 1) = {} \<and>
   mset (train example_inds 1) + mset (example_tests ! 1) = mset [0..<7] \<and>
   (\<exists>k<K. 4 \<in> set (example_tests ! k) \<and>
      (\<forall>j<K. j \<noteq> k \<longrightarrow> 4 \<notin> set (example_tests ! j) \<and> 4 \<in> set (train example_inds j)))"
proof -
  have h1: "shuffled 7 example_inds" by code_simp
  have h2: "are_tests example_inds example_tests" by code_simp
  have v: "train example_inds 1 = [3, 6, 2, 5, 1]" "example_tests ! 1 = [0, 4]" by code_simp+
  have k: "1 < K" "(4::nat) < 7" by (simp_all add: K_def)
  from kfold_partition [OF h1 h2] k
  have "set (train example_inds 1) \<inter> set (example_tests ! 1) = {}"
    and "mset (train example_inds 1) + mset (example_tests ! 1) = mset [0..<7]"
    and "\<exists>k<K. 4 \<in> set (example_tests ! k) \<and>
      (\<forall>j<K. j \<noteq> k \<longrightarrow> 4 \<notin> set (example_tests ! j) \<and> 4 \<in> set (train example_inds j))"
    by blast+
  then show ?thesis using h1 h2 v by blast
qed

section \<open>The cumulative variance curve\<close>

subsection \<open>Rounding to binary64\<close>

lemma two_powi_pos: "0 < (2::rat) powi n"
  by simp

lemma two_powi_mono: "a \<le> b \<Longrightarrow> (2::rat) powi a \<le> 2 powi b"
  by (rule power_int_increasing) simp_all

lemma two_powi_strict_mono: "a < b \<Longrightarrow> (2::rat) powi a < 2 powi b"
  by (rule power_int_strict_increasing) simp_all

lemma two_powi_less_iff: "(2::rat) powi a < 2 powi b \<longleftrightarrow> a < b"
proof
  assume l: "(2::rat) powi a < 2 powi b"
  show "a < b"
  proof (rule ccontr)
    assume "\<not> a < b"
    then have "b \<le> a" by simp
    from two_powi_mono [OF this] l show False by simp
  qed
qed (rule two_powi_strict_mono)

lemma two_powi_le_iff: "(2::rat) powi a \<le> 2 powi b \<longleftrightarrow> a \<le> b"
proof
  assume l: "(2::rat) powi a \<le> 2 powi b"
  show "a \<le> b"
  proof (rule ccontr)
    assume "\<not> a \<le> b"
    then have "b < a" by simp
    from two_powi_strict_mono [OF this] l show False by simp
  qed
qed (rule two_powi_mono)

lemma bitlen_powi_bounds:
  assumes "0 < p"
  shows "(2::rat) powi (bitlen p - 1) \<le> of_int p" and "of_int p < (2::rat) powi bitlen p"
proof -
  have b: "1 \<le> bitlen p" using assms bitlen_eq_zero_iff [of p] bitlen_nonneg [of p] by linarith
  from bitlen_bounds [OF assms]
  have 1: "(2::int) ^ nat (bitlen p - 1) \<le> p" and 2: "p < (2::int) ^ nat (bitlen p)" by simp_all
  have "(2::rat) powi (bitlen p - 1) = of_int (2 ^ nat (bitlen p - 1))"
    using b by (simp add: power_int_def)
  also have "\<dots> \<le> of_int p" using 1 by (simp only: of_int_le_iff)
  finally show "(2::rat) powi (bitlen p - 1) \<le> of_int p" .
  have "(of_int p :: rat) < of_int (2 ^ nat (bitlen p))" using 2 by (simp only: of_int_less_iff)
  also have "\<dots> = (2::rat) powi bitlen p"
    using b by (simp add: power_int_def)
  finally show "of_int p < (2::rat) powi bitlen p" .
qed

lemma ilog2_bounds:
  assumes "0 < x"
  shows "2 powi ilog2 x \<le> x" and "x < 2 powi (ilog2 x + 1)"
proof -
  obtain p q where pq: "quotient_of x = (p, q)" by force
  have q: "0 < q" using quotient_of_denom_pos [OF pq] .
  have x: "x = of_int p / of_int q" using quotient_of_div [OF pq] .
  have p: "0 < p" using assms q x by (simp add: zero_less_divide_iff)
  define d where "d = bitlen p - bitlen q"
  note P = bitlen_powi_bounds [OF p] and Q = bitlen_powi_bounds [OF q]
  have qpos: "(0::rat) < of_int q" using q by simp
  have up: "x < 2 powi (d + 1)"
  proof -
    have "of_int p < (2::rat) powi bitlen p" by (rule P(2))
    also have "\<dots> = 2 powi (d + 1) * 2 powi (bitlen q - 1)"
      by (simp add: d_def flip: power_int_add)
    also have "\<dots> \<le> 2 powi (d + 1) * of_int q"
      using Q(1) by (simp add: mult_left_mono)
    finally show ?thesis using qpos by (simp add: x pos_divide_less_eq)
  qed
  have lo: "2 powi (d - 1) \<le> x"
  proof -
    have "2 powi (d - 1) * of_int q \<le> 2 powi (d - 1) * (2::rat) powi bitlen q"
      using Q(2) by (simp add: mult_left_mono)
    also have "\<dots> = 2 powi (bitlen p - 1)"
      by (simp add: d_def flip: power_int_add)
    also have "\<dots> \<le> of_int p" by (rule P(1))
    finally show ?thesis using qpos by (simp add: x pos_le_divide_eq)
  qed
  have il: "ilog2 x = (if 2 powi d \<le> x then d else d - 1)"
    by (simp add: ilog2_def pq d_def Let_def)
  show "2 powi ilog2 x \<le> x" using lo by (simp add: il)
  show "x < 2 powi (ilog2 x + 1)" using up by (auto simp: il)
qed

lemma ilog2_unique:
  assumes "2 powi e \<le> x" and "x < 2 powi (e + 1)"
  shows "ilog2 x = e"
proof -
  have pos: "0 < x" using assms(1) two_powi_pos [of e] by linarith
  note B = ilog2_bounds [OF pos]
  have "(2::rat) powi e < 2 powi (ilog2 x + 1)" using assms(1) B(2) by linarith
  then have 1: "e < ilog2 x + 1" by (simp only: two_powi_less_iff)
  have "(2::rat) powi ilog2 x < 2 powi (e + 1)" using assms(2) B(1) by linarith
  then have 2: "ilog2 x < e + 1" by (simp only: two_powi_less_iff)
  from 1 2 show ?thesis by linarith
qed

lemma round_half_even_cases:
  "round_half_even y = \<lfloor>y\<rfloor> \<and> y - of_int \<lfloor>y\<rfloor> \<le> 1 / 2 \<or>
   round_half_even y = \<lfloor>y\<rfloor> + 1 \<and> 1 / 2 \<le> y - of_int \<lfloor>y\<rfloor>"
  by (auto simp: round_half_even_def Let_def)

lemma round_half_even_nearest:
  "\<bar>of_int (round_half_even y) - y\<bar> \<le> \<bar>of_int k - y\<bar>"
proof -
  have f: "of_int \<lfloor>y\<rfloor> \<le> y" "y < of_int \<lfloor>y\<rfloor> + 1" by linarith+
  consider "k \<le> \<lfloor>y\<rfloor>" | "\<lfloor>y\<rfloor> + 1 \<le> k" by linarith
  then show ?thesis
  proof cases
    case 1
    then have "(of_int k :: rat) \<le> of_int \<lfloor>y\<rfloor>" by (simp only: of_int_le_iff)
    with f round_half_even_cases [of y] show ?thesis by auto
  next
    case 2
    then have "(of_int (\<lfloor>y\<rfloor> + 1) :: rat) \<le> of_int k" by (simp only: of_int_le_iff)
    then have "of_int \<lfloor>y\<rfloor> + 1 \<le> (of_int k :: rat)" by simp
    with f round_half_even_cases [of y] show ?thesis by auto
  qed
qed

lemma round_half_even_bound:
  assumes "\<bar>y\<bar> \<le> of_int m"
  shows "\<bar>round_half_even y\<bar> \<le> m"
proof -
  have "(of_int (- m) :: rat) \<le> y" using assms by simp
  then have lo: "- m \<le> \<lfloor>y\<rfloor>" by (simp only: le_floor_iff)
  have hi: "y \<le> of_int m" using assms by simp
  show ?thesis
  proof (cases "y = of_int m")
    case True
    then show ?thesis using assms by (simp add: round_half_even_def)
  next
    case False
    with hi have "y < of_int m" by simp
    then have "\<lfloor>y\<rfloor> < m" by (simp only: floor_less_iff)
    with lo round_half_even_cases [of y] show ?thesis by auto
  qed
qed

lemma two_powi_53: "(2::rat) powi (E + 1) = 2 powi (E - 52) * 2 ^ 53"
  using power_int_add [of "2::rat" "E - 52" 53] by (simp add: add.commute)

lemma quantum_pos: "0 < quantum x"
  by (simp add: quantum_def)

text \<open>Every rounded value is a multiple of the spacing of a binade that contains it.\<close>

lemma round64_form:
  "\<exists>n E. round64 z = of_int n * 2 powi (E - 52) \<and> \<bar>round64 z\<bar> \<le> 2 powi (E + 1) \<and>
         - 1022 \<le> E"
proof (cases "z = 0")
  case True
  have "round64 z = of_int 0 * 2 powi (0 - 52) \<and> \<bar>round64 z\<bar> \<le> 2 powi (0 + 1) \<and>
        - 1022 \<le> (0::int)"
    using True by (simp add: round64_def)
  then show ?thesis by blast
next
  case False
  define E where "E = max (ilog2 \<bar>z\<bar>) (- 1022)"
  define q where "q = (2::rat) powi (E - 52)"
  define n where "n = round_half_even (z / q)"
  have qz: "quantum z = q" by (simp add: quantum_def q_def E_def)
  have qpos: "0 < q" by (simp add: q_def)
  have r: "round64 z = of_int n * q" using False by (simp add: round64_def qz n_def)
  have "\<bar>z\<bar> < 2 powi (ilog2 \<bar>z\<bar> + 1)" using ilog2_bounds(2) [of "\<bar>z\<bar>"] False by simp
  also have "\<dots> \<le> 2 powi (E + 1)" by (rule two_powi_mono) (simp add: E_def)
  also have "\<dots> = q * 2 ^ 53" by (simp add: q_def two_powi_53)
  finally have "\<bar>z\<bar> / q < 2 ^ 53" using qpos by (simp add: pos_divide_less_eq mult.commute)
  then have "\<bar>z / q\<bar> \<le> of_int (2 ^ 53)" using qpos by simp
  then have "\<bar>n\<bar> \<le> 2 ^ 53" unfolding n_def by (rule round_half_even_bound)
  then have "(of_int \<bar>n\<bar> :: rat) \<le> of_int (2 ^ 53)" by (simp only: of_int_le_iff)
  then have "\<bar>of_int n :: rat\<bar> \<le> 2 ^ 53" by simp
  then have "\<bar>of_int n * q\<bar> \<le> 2 ^ 53 * q"
    using qpos by (simp add: abs_mult mult_right_mono)
  also have "\<dots> = 2 powi (E + 1)" by (simp add: q_def two_powi_53)
  finally have "\<bar>round64 z\<bar> \<le> 2 powi (E + 1)" by (simp add: r)
  moreover have "- 1022 \<le> E" by (simp add: E_def)
  ultimately show ?thesis using r unfolding q_def by blast
qed

text \<open>Rounding picks a nearest number among the rounded values.\<close>

lemma round64_nearest: "\<bar>round64 y - y\<bar> \<le> \<bar>round64 z - y\<bar>"
proof (cases "y = 0")
  case True
  then show ?thesis by (simp add: round64_def)
next
  case False
  define e where "e = ilog2 \<bar>y\<bar>"
  define E where "E = max e (- 1022)"
  define q where "q = (2::rat) powi (E - 52)"
  define n where "n = round_half_even (y / q)"
  have qy: "quantum y = q" by (simp add: quantum_def q_def E_def e_def)
  have qpos: "0 < q" by (simp add: q_def)
  have r: "round64 y = of_int n * q" using False by (simp add: round64_def qy n_def)
  have near: "\<bar>round64 y - y\<bar> \<le> \<bar>of_int k * q - y\<bar>" for k
  proof -
    have "\<bar>of_int n - y / q\<bar> \<le> \<bar>of_int k - y / q\<bar>"
      unfolding n_def by (rule round_half_even_nearest)
    then have "\<bar>of_int n - y / q\<bar> * q \<le> \<bar>of_int k - y / q\<bar> * q"
      using qpos by (simp add: mult_right_mono)
    moreover have "\<bar>of_int j - y / q\<bar> * q = \<bar>of_int j * q - y\<bar>" for j
    proof -
      have "\<bar>of_int j - y / q\<bar> * q = \<bar>(of_int j - y / q) * q\<bar>"
        using qpos by (simp add: abs_mult)
      also have "(of_int j - y / q) * q = of_int j * q - y"
        using qpos by (simp add: algebra_simps)
      finally show ?thesis .
    qed
    ultimately show ?thesis by (simp add: r)
  qed
  obtain m F where f: "round64 z = of_int m * 2 powi (F - 52)" "\<bar>round64 z\<bar> \<le> 2 powi (F + 1)"
    "- 1022 \<le> F"
    using round64_form [of z] by blast
  show ?thesis
  proof (cases "E \<le> F")
    case True
    have "(2::rat) powi (F - 52) = 2 powi (F - E) * q"
      by (simp add: q_def flip: power_int_add)
    also have "(2::rat) powi (F - E) = of_int (2 ^ nat (F - E))"
      using True by (simp add: power_int_def)
    finally have "round64 z = of_int (m * 2 ^ nat (F - E)) * q"
      by (simp add: f(1))
    with near [of "m * 2 ^ nat (F - E)"] show ?thesis by simp
  next
    case False
    then have FE: "F + 1 \<le> E" by simp
    with f(3) have "E = e" by (simp add: E_def max_def split: if_splits)
    have ypos: "0 < \<bar>y\<bar>" using \<open>y \<noteq> 0\<close> by simp
    have le: "2 powi E \<le> \<bar>y\<bar>"
      using ilog2_bounds(1) [OF ypos] \<open>E = e\<close> by (simp add: e_def)
    have fE: "\<bar>round64 z\<bar> \<le> 2 powi E"
      using f(2) two_powi_mono [OF FE] by linarith
    have pw: "(2::rat) powi E = of_int (2 ^ 52) * q"
      using power_int_add [of "2::rat" "E - 52" 52] by (simp add: q_def)
    show ?thesis
    proof (cases "0 < y")
      case True
      from near [of "2 ^ 52"] have "\<bar>round64 y - y\<bar> \<le> \<bar>2 powi E - y\<bar>" by (simp only: pw)
      with le fE True show ?thesis by linarith
    next
      case False
      from near [of "- (2 ^ 52)"] have "\<bar>round64 y - y\<bar> \<le> \<bar>- (2 powi E) - y\<bar>"
        by (simp only: pw of_int_minus mult_minus_left)
      with le fE False show ?thesis by linarith
    qed
  qed
qed

lemma round64_step:
  assumes "0 \<le> b"
  shows "round64 z \<le> round64 (round64 z + b)"
  using round64_nearest [of "round64 z + b" z] assms by linarith

lemma round64_cert:
  assumes "2 powi e \<le> \<bar>x\<bar>" and "\<bar>x\<bar> < 2 powi (e + 1)" and "- 1022 \<le> e"
    and "of_int f \<le> x / 2 powi (e - 52)" and "x / 2 powi (e - 52) < of_int f + 1"
    and "n = (if x / 2 powi (e - 52) - of_int f < 1 / 2 then f
              else if 1 / 2 < x / 2 powi (e - 52) - of_int f then f + 1
              else if even f then f else f + 1)"
    and "r = of_int n * 2 powi (e - 52)"
  shows "round64 x = r"
proof -
  have e: "ilog2 \<bar>x\<bar> = e" by (rule ilog2_unique [OF assms(1) assms(2)])
  have "0 < \<bar>x\<bar>" using assms(1) two_powi_pos [of e] by linarith
  then have x: "x \<noteq> 0" by simp
  have q: "quantum x = 2 powi (e - 52)" using assms(3) by (simp add: quantum_def e max_def)
  have "\<lfloor>x / 2 powi (e - 52)\<rfloor> = f" using assms(4,5) by (simp add: floor_unique)
  then have "round_half_even (x / 2 powi (e - 52)) = n"
    by (simp add: round_half_even_def Let_def assms(6))
  then show ?thesis using x by (simp add: round64_def q assms(7))
qed

subsection \<open>The running sum in binary64\<close>

lemma le64_trans: "le64 a b \<Longrightarrow> le64 b c \<Longrightarrow> le64 a c"
  by (cases a; cases b; cases c) simp_all

definition running :: "f64 \<Rightarrow> bool" where
  "running s = (s = PosInf \<or> (\<exists>z. s = Finite (round64 z) \<and> 0 \<le> round64 z))"

lemma running_refl: "running s \<Longrightarrow> le64 s s"
  by (auto simp: running_def)

lemma ratio64_running: "ratio64 x \<Longrightarrow> running x"
  by (cases x) (auto simp: running_def intro: exI [of _ "exact x"])

lemma add64_running:
  assumes "running s" and "ratio64 x"
  shows "running (add64 s x)" and "le64 s (add64 s x)"
proof -
  from assms(2) obtain b where x: "x = Finite b" and b: "0 \<le> b" by (cases x) simp_all
  from assms(1) consider "s = PosInf" | z where "s = Finite (round64 z)" "0 \<le> round64 z"
    by (auto simp: running_def)
  then have "running (add64 s x) \<and> le64 s (add64 s x)"
  proof cases
    case 1
    then show ?thesis by (simp add: x running_def)
  next
    case 2
    have "round64 z \<le> round64 (round64 z + b)" by (rule round64_step [OF b])
    with 2 show ?thesis
      by (auto simp: x running_def Let_def max_f64_def)
  qed
  then show "running (add64 s x)" and "le64 s (add64 s x)" by simp_all
qed

lemma cumsum_from_sorted:
  "running s \<Longrightarrow> \<forall>r\<in>set xs. ratio64 r \<Longrightarrow> sorted_wrt le64 (s # cumsum_from add64 s xs)"
proof (induction xs arbitrary: s)
  case Nil
  then show ?case by simp
next
  case (Cons x xs)
  have x: "ratio64 x" and xs: "\<forall>r\<in>set xs. ratio64 r" using Cons.prems(2) by simp_all
  note step = add64_running [OF Cons.prems(1) x]
  have rest: "sorted_wrt le64 (add64 s x # cumsum_from add64 (add64 s x) xs)"
    by (rule Cons.IH [OF step(1) xs])
  then have "\<forall>c\<in>set (cumsum_from add64 (add64 s x) xs). le64 s c"
    using step(2) by (auto intro: le64_trans)
  with rest step(2) show ?case by simp
qed

lemma cumsum_from_below_last:
  "running s \<Longrightarrow> \<forall>r\<in>set xs. ratio64 r \<Longrightarrow>
     \<forall>c\<in>set (s # cumsum_from add64 s xs). le64 c (last (s # cumsum_from add64 s xs))"
proof (induction xs arbitrary: s)
  case Nil
  then show ?case by (simp add: running_refl)
next
  case (Cons x xs)
  have x: "ratio64 x" and xs: "\<forall>r\<in>set xs. ratio64 r" using Cons.prems(2) by simp_all
  note step = add64_running [OF Cons.prems(1) x]
  let ?t = "add64 s x"
  have ih: "\<forall>c\<in>set (?t # cumsum_from add64 ?t xs). le64 c (last (?t # cumsum_from add64 ?t xs))"
    by (rule Cons.IH [OF step(1) xs])
  then have "le64 ?t (last (?t # cumsum_from add64 ?t xs))" by simp
  with step(2) have "le64 s (last (?t # cumsum_from add64 ?t xs))" by (rule le64_trans)
  with ih show ?case by simp
qed

lemma length_cumsum_from: "length (cumsum_from add s xs) = length xs"
  by (induction xs arbitrary: s) simp_all

lemma nth_cumsum_from:
  "i < length xs \<Longrightarrow> cumsum_from add s xs ! i = foldl add s (take (Suc i) xs)"
proof (induction xs arbitrary: s i)
  case Nil
  then show ?case by simp
next
  case (Cons x xs)
  show ?case
  proof (cases i)
    case 0
    then show ?thesis by simp
  next
    case (Suc j)
    with Cons.prems have "j < length xs" by simp
    from Cons.IH [OF this, of "add s x"] Suc show ?thesis by simp
  qed
qed

lemma length_cumsum: "length (cumsum rs) = length rs"
  by (cases rs) (simp_all add: length_cumsum_from)

lemma nth_cumsum: "i < length rs \<Longrightarrow> cumsum rs ! i = foldl add64 (hd rs) (take i (tl rs))"
  by (cases rs; cases i) (simp_all add: nth_cumsum_from)

subsection \<open>The curve of the six ratios\<close>

lemma rounding_example_fixed_0: "round64 (1 / 2) = 1 / 2"
  by (rule round64_cert [where e = "- 1" and f = 4503599627370496 and n = 4503599627370496])
     (simp_all add: power_int_minus)

lemma rounding_example_fixed_1: "round64 (65 / 1152921504606846976) = 65 / 1152921504606846976"
  by (rule round64_cert [where e = "- 54" and f = 4573968371548160 and n = 4573968371548160])
     (simp_all add: power_int_minus)

lemma rounding_example_fixed_2:
  "round64 (9007199254740987 / 18014398509481984) =
     9007199254740987 / 18014398509481984"
  by (rule round64_cert [where e = "- 2" and f = 9007199254740987 and n = 9007199254740987])
     (simp_all add: power_int_minus)

lemma rounding_example_round_1:
  "round64 (1 / 2 +
            65 / 1152921504606846976) =
     4503599627370497 / 9007199254740992"
  by (rule round64_cert [where e = "- 1" and f = 4503599627370496 and n = 4503599627370497])
     (simp_all add: power_int_minus)

lemma rounding_example_add_1:
  "add64 (Finite (1 / 2))
       (Finite (65 / 1152921504606846976)) =
     Finite (4503599627370497 / 9007199254740992)"
  unfolding add64.simps rounding_example_round_1 by (simp add: max_f64_def)

lemma rounding_example_round_2:
  "round64 (4503599627370497 / 9007199254740992 +
            65 / 1152921504606846976) =
     2251799813685249 / 4503599627370496"
  by (rule round64_cert [where e = "- 1" and f = 4503599627370497 and n = 4503599627370498])
     (simp_all add: power_int_minus)

lemma rounding_example_add_2:
  "add64 (Finite (4503599627370497 / 9007199254740992))
       (Finite (65 / 1152921504606846976)) =
     Finite (2251799813685249 / 4503599627370496)"
  unfolding add64.simps rounding_example_round_2 by (simp add: max_f64_def)

lemma rounding_example_round_3:
  "round64 (2251799813685249 / 4503599627370496 +
            65 / 1152921504606846976) =
     4503599627370499 / 9007199254740992"
  by (rule round64_cert [where e = "- 1" and f = 4503599627370498 and n = 4503599627370499])
     (simp_all add: power_int_minus)

lemma rounding_example_add_3:
  "add64 (Finite (2251799813685249 / 4503599627370496))
       (Finite (65 / 1152921504606846976)) =
     Finite (4503599627370499 / 9007199254740992)"
  unfolding add64.simps rounding_example_round_3 by (simp add: max_f64_def)

lemma rounding_example_round_4:
  "round64 (4503599627370499 / 9007199254740992 +
            65 / 1152921504606846976) =
     1125899906842625 / 2251799813685248"
  by (rule round64_cert [where e = "- 1" and f = 4503599627370499 and n = 4503599627370500])
     (simp_all add: power_int_minus)

lemma rounding_example_add_4:
  "add64 (Finite (4503599627370499 / 9007199254740992))
       (Finite (65 / 1152921504606846976)) =
     Finite (1125899906842625 / 2251799813685248)"
  unfolding add64.simps rounding_example_round_4 by (simp add: max_f64_def)

lemma rounding_example_round_5:
  "round64 (1125899906842625 / 2251799813685248 +
            9007199254740987 / 18014398509481984) =
     4503599627370497 / 4503599627370496"
  by (rule round64_cert [where e = "0" and f = 4503599627370496 and n = 4503599627370497])
     (simp_all add: power_int_minus)

lemma rounding_example_add_5:
  "add64 (Finite (1125899906842625 / 2251799813685248))
       (Finite (9007199254740987 / 18014398509481984)) =
     Finite (4503599627370497 / 4503599627370496)"
  unfolding add64.simps rounding_example_round_5 by (simp add: max_f64_def)

lemma cumsum_rounding_example:
  "cumsum rounding_example =
     [Finite (1 / 2),
      Finite (4503599627370497 / 9007199254740992),
      Finite (2251799813685249 / 4503599627370496),
      Finite (4503599627370499 / 9007199254740992),
      Finite (1125899906842625 / 2251799813685248),
      Finite (4503599627370497 / 4503599627370496)]"
  unfolding rounding_example_def
  by (simp only: cumsum.simps cumsum_from.simps rounding_example_add_1 rounding_example_add_2 rounding_example_add_3 rounding_example_add_4 rounding_example_add_5)

text \<open>
  C7, as the specification states it: for every vector of nonnegative ratios summing to
  at most 1 the curve is bounded above by 1. It fails: the six ratios of
  \<open>rounding_example\<close> are nonnegative binary64 numbers whose exact sum is below 1, and
  four of the five additions round upwards, so that the curve ends at
  \<open>1 + 2 ^ (-52)\<close>, the binary64 number after 1.
\<close>

theorem cumsum_exceeds_one:
  "list_all ratio64 rounding_example \<and>
   sum_list (map exact rounding_example) \<le> 1 \<and>
   last (cumsum rounding_example) = Finite (4503599627370497 / 4503599627370496) \<and>
   \<not> le64 (last (cumsum rounding_example)) (Finite 1)"
proof -
  have "list_all ratio64 rounding_example"
    by (simp add: rounding_example_def rounding_example_fixed_0 rounding_example_fixed_1 rounding_example_fixed_2 max_f64_def)
  moreover have "sum_list (map exact rounding_example) \<le> 1"
    by (simp add: rounding_example_def)
  ultimately show ?thesis by (simp add: cumsum_rounding_example)
qed

subsection \<open>The curve is a running sum, nondecreasing and bounded by its end\<close>

lemma tenths_fixed_0:
  "round64 (3602879701896397 / 36028797018963968) =
     3602879701896397 / 36028797018963968"
  by (rule round64_cert [where e = "- 4" and f = 7205759403792794 and n = 7205759403792794])
     (simp_all add: power_int_minus)

lemma tenths_fixed_1:
  "round64 (3602879701896397 / 18014398509481984) =
     3602879701896397 / 18014398509481984"
  by (rule round64_cert [where e = "- 3" and f = 7205759403792794 and n = 7205759403792794])
     (simp_all add: power_int_minus)

lemma tenths_fixed_2:
  "round64 (5404319552844595 / 18014398509481984) =
     5404319552844595 / 18014398509481984"
  by (rule round64_cert [where e = "- 2" and f = 5404319552844595 and n = 5404319552844595])
     (simp_all add: power_int_minus)

lemma tenths_round_1:
  "round64 (3602879701896397 / 36028797018963968 +
            3602879701896397 / 18014398509481984) =
     1351079888211149 / 4503599627370496"
  by (rule round64_cert [where e = "- 2" and f = 5404319552844595 and n = 5404319552844596])
     (simp_all add: power_int_minus)

lemma tenths_add_1:
  "add64 (Finite (3602879701896397 / 36028797018963968))
       (Finite (3602879701896397 / 18014398509481984)) =
     Finite (1351079888211149 / 4503599627370496)"
  unfolding add64.simps tenths_round_1 by (simp add: max_f64_def)

lemma tenths_round_2:
  "round64 (1351079888211149 / 4503599627370496 +
            5404319552844595 / 18014398509481984) =
     1351079888211149 / 2251799813685248"
  by (rule round64_cert [where e = "- 1" and f = 5404319552844595 and n = 5404319552844596])
     (simp_all add: power_int_minus)

lemma tenths_add_2:
  "add64 (Finite (1351079888211149 / 4503599627370496))
       (Finite (5404319552844595 / 18014398509481984)) =
     Finite (1351079888211149 / 2251799813685248)"
  unfolding add64.simps tenths_round_2 by (simp add: max_f64_def)

lemma cumsum_tenths:
  "cumsum tenths =
     [Finite (3602879701896397 / 36028797018963968),
      Finite (1351079888211149 / 4503599627370496),
      Finite (1351079888211149 / 2251799813685248)]"
  unfolding tenths_def
  by (simp only: cumsum.simps cumsum_from.simps tenths_add_1 tenths_add_2)

text \<open>
  C7, amended: the curve plotted is the running sum of the explained variance ratios and
  nothing more: it has one entry for each ratio, and entry \<open>i\<close> is the binary64 sum,
  added from left to right, of the ratios up to \<open>i\<close>. For every vector of nonnegative
  binary64 ratios whose sum as so computed, the last entry of the curve, is at most 1,
  the curve never decreases and never exceeds 1.
\<close>

theorem cumsum_curve:
  assumes "\<forall>r\<in>set rs. ratio64 r" and "rs \<noteq> [] \<longrightarrow> le64 (last (cumsum rs)) (Finite 1)"
  shows "length (cumsum rs) = length rs \<and>
         (\<forall>i<length rs. cumsum rs ! i = foldl add64 (hd rs) (take i (tl rs))) \<and>
         sorted_wrt le64 (cumsum rs) \<and>
         (\<forall>c\<in>set (cumsum rs). le64 c (Finite 1))"
proof (cases rs)
  case Nil
  then show ?thesis by simp
next
  case (Cons x xs)
  have x: "running x" and xs: "\<forall>r\<in>set xs. ratio64 r"
    using assms(1) Cons by (simp_all add: ratio64_running)
  have c: "cumsum rs = x # cumsum_from add64 x xs" using Cons by simp
  have srt: "sorted_wrt le64 (cumsum rs)"
    unfolding c by (rule cumsum_from_sorted [OF x xs])
  have top: "le64 (last (cumsum rs)) (Finite 1)" using assms(2) Cons by simp
  have "\<forall>v\<in>set (cumsum rs). le64 v (Finite 1)"
  proof
    fix v assume "v \<in> set (cumsum rs)"
    then have "le64 v (last (cumsum rs))"
      unfolding c using cumsum_from_below_last [OF x xs] by blast
    then show "le64 v (Finite 1)" using top by (rule le64_trans)
  qed
  with srt show ?thesis by (simp add: length_cumsum nth_cumsum)
qed

theorem cumsum_curve_witness:
  "list_all ratio64 tenths \<and>
   le64 (last (cumsum tenths)) (Finite 1) \<and>
   cumsum tenths =
     [Finite (3602879701896397 / 36028797018963968),
      Finite (1351079888211149 / 4503599627370496),
      Finite (1351079888211149 / 2251799813685248)] \<and>
   sorted_wrt le64 (cumsum tenths) \<and>
   le64 (cumsum tenths ! 1) (Finite 1)"
proof -
  have h1: "\<forall>r\<in>set tenths. ratio64 r"
    by (simp add: tenths_def tenths_fixed_0 tenths_fixed_1 tenths_fixed_2 max_f64_def)
  have h2: "tenths \<noteq> [] \<longrightarrow> le64 (last (cumsum tenths)) (Finite 1)"
    by (simp add: cumsum_tenths)
  from cumsum_curve [OF h1 h2]
  have "sorted_wrt le64 (cumsum tenths)" and b: "\<forall>c\<in>set (cumsum tenths). le64 c (Finite 1)"
    by blast+
  moreover have "cumsum tenths ! 1 \<in> set (cumsum tenths)" by (simp add: cumsum_tenths)
  moreover have "list_all ratio64 tenths" using h1 by (simp add: list_all_iff)
  moreover have "le64 (last (cumsum tenths)) (Finite 1)" using h2 by (simp add: tenths_def)
  ultimately show ?thesis using cumsum_tenths by blast
qed

end
